theory Spec2Isabelle
  imports Main "HOL-Library.Word"
begin

section \<open>Data model of package flatjson\<close>

text \<open>
  The decoder of \<^verbatim>\<open>encoding/json\<close> hands \<^verbatim>\<open>parseJSON\<close> one token per call of
  \<^verbatim>\<open>dec.Token()\<close>: a \<^verbatim>\<open>json.Delim\<close> (one of the four brackets) or a basic value
  (\<^verbatim>\<open>string\<close>, \<^verbatim>\<open>float64\<close>, \<^verbatim>\<open>bool\<close>, \<^verbatim>\<open>nil\<close>). A map key arrives as a plain
  \<^verbatim>\<open>string\<close>, exactly like a string value. The number type is never inspected by the
  package, so it is the type parameter \<open>'n\<close>.
\<close>

datatype delim = LBrace | RBrace | LSquare | RSquare

datatype 'n scalar = Str string | Num 'n | Bool bool | Null

datatype 'n token = Delim delim | Val "'n scalar"

text \<open>\<^verbatim>\<open>type Pair struct { Key string; Value interface{} }\<close>; an unset \<^verbatim>\<open>Value\<close> is \<^verbatim>\<open>nil\<close>.\<close>

record 'n Pair =
  Key :: string
  Value :: "'n scalar"

text \<open>The two run-time panics that the body of \<^verbatim>\<open>parseJSON\<close> can raise.\<close>

datatype panic = IndexOutOfRange | TypeAssertion

text \<open>
  What \<^verbatim>\<open>dec.Token()\<close> reports once the tokens are used up: \<^verbatim>\<open>io.EOF\<close>, or another
  error of type \<open>'e\<close>.
\<close>

datatype 'e ending = EOF | Err 'e

text \<open>The local variables of \<^verbatim>\<open>parseJSON\<close> that live across loop iterations.\<close>

record 'n state =
  pairs :: "'n Pair list"
  inmap :: bool
  inarr :: bool
  empty :: bool
  onkey :: bool
  arridx :: "8 word list"
  arrkey :: string
  path :: "string list"
  pos :: int

section \<open>Library operations used by the loop\<close>

text \<open>\<^verbatim>\<open>strings.Join(elems, sep)\<close>.\<close>

fun Join :: "string list \<Rightarrow> string \<Rightarrow> string" where
  "Join [] sep = []"
| "Join [a] sep = a"
| "Join (a # b # rest) sep = a @ sep @ Join (b # rest) sep"

definition pathd :: string where
  "pathd = ''.''"

text \<open>\<^verbatim>\<open>string(arridx)\<close>: a Go string is the byte sequence itself.\<close>

definition string_of_bytes :: "8 word list \<Rightarrow> string" where
  "string_of_bytes bs = map (\<lambda>b. char_of (unat b)) bs"

text \<open>The slice expression \<^verbatim>\<open>xs[:hi]\<close>; capacity and length coincide for every slice made here.\<close>

definition slice_to :: "string list \<Rightarrow> int \<Rightarrow> panic + string list" where
  "slice_to xs hi =
     (if 0 \<le> hi \<and> hi \<le> int (length xs) then Inr (take (nat hi) xs) else Inl IndexOutOfRange)"

text \<open>The indexed read \<^verbatim>\<open>xs[i]\<close> and the indexed write \<^verbatim>\<open>xs[i] = v\<close>.\<close>

definition load :: "string list \<Rightarrow> int \<Rightarrow> panic + string" where
  "load xs i = (if 0 \<le> i \<and> i < int (length xs) then Inr (xs ! nat i) else Inl IndexOutOfRange)"

definition store :: "string list \<Rightarrow> int \<Rightarrow> string \<Rightarrow> panic + string list" where
  "store xs i v =
     (if 0 \<le> i \<and> i < int (length xs) then Inr (xs[nat i := v]) else Inl IndexOutOfRange)"

text \<open>\<^verbatim>\<open>dest = make([]string, n); copy(dest, path)\<close>.\<close>

definition grow :: "string list \<Rightarrow> int \<Rightarrow> string list" where
  "grow xs n = take (nat n) xs @ replicate (nat n - length xs) []"

section \<open>The loop body of parseJSON\<close>

text \<open>
  \<^verbatim>\<open>pairs = append(pairs, &Pair{Key: strings.Join(path[:pos+1], pathd), Value: v})\<close>,
  which the source writes out three times (twice without \<^verbatim>\<open>Value\<close>, that is with \<^verbatim>\<open>nil\<close>).
\<close>

definition append_pair :: "'n state \<Rightarrow> 'n scalar \<Rightarrow> panic + 'n state" where
  "append_pair s v =
     (case slice_to (path s) (pos s + 1) of
        Inl p \<Rightarrow> Inl p
      | Inr seg \<Rightarrow> Inr (s\<lparr>pairs := pairs s @ [\<lparr>Key = Join seg pathd, Value = v\<rparr>]\<rparr>))"

text \<open>
  One iteration of the \<^verbatim>\<open>for\<close> loop after a token was read. In
  \<^verbatim>\<open>path[pos] = tok.(string)\<close> the right-hand side is evaluated before the element is
  assigned, so a token that is not a string fails the type assertion first.
\<close>

fun step :: "'n state \<Rightarrow> 'n token \<Rightarrow> panic + 'n state" where
  "step s (Delim LBrace) =
     (let s1 = s\<lparr>empty := True, inmap := True, onkey := True, pos := pos s + 1\<rparr>
      in Inr (if pos s1 = int (length (path s1))
              then s1\<lparr>path := grow (path s1) (pos s1 * 2)\<rparr>
              else s1))"
| "step s (Delim RBrace) =
     (case (if empty s \<and> pos s > 0 then append_pair s Null else Inr s) of
        Inl p \<Rightarrow> Inl p
      | Inr s1 \<Rightarrow> Inr (s1\<lparr>inmap := False, onkey := True, pos := pos s1 - 1\<rparr>))"
| "step s (Delim LSquare) =
     (let s1 = s\<lparr>empty := True, inarr := True, arridx := (arridx s)[1 := 0x30]\<rparr>
      in if pos s1 > 0
         then (case load (path s1) (pos s1) of
                 Inl p \<Rightarrow> Inl p
               | Inr k \<Rightarrow> Inr (s1\<lparr>arrkey := k\<rparr>))
         else Inr (s1\<lparr>arrkey := []\<rparr>))"
| "step s (Delim RSquare) =
     (case (if empty s \<and> pos s \<ge> 0 then append_pair s Null else Inr s) of
        Inl p \<Rightarrow> Inl p
      | Inr s1 \<Rightarrow> Inr (s1\<lparr>inarr := False\<rparr>))"
| "step s (Val v) =
     (let s0 = s\<lparr>empty := False\<rparr>
      in if onkey s0
         then (case v of
                 Str k \<Rightarrow>
                   (case store (path s0) (pos s0) k of
                      Inl p \<Rightarrow> Inl p
                    | Inr pth \<Rightarrow> Inr (s0\<lparr>path := pth, onkey := False\<rparr>))
               | _ \<Rightarrow> Inl TypeAssertion)
         else (case (if inarr s0
                     then (let s1 = (if pos s0 < 0 then s0\<lparr>pos := 0\<rparr> else s0)
                           in case store (path s1) (pos s1)
                                     (arrkey s1 @ string_of_bytes (arridx s1)) of
                                Inl p \<Rightarrow> Inl p
                              | Inr pth \<Rightarrow>
                                  Inr (s1\<lparr>path := pth,
                                          arridx := (arridx s1)[1 := arridx s1 ! 1 + 1]\<rparr>))
                     else if inmap s0 then Inr (s0\<lparr>onkey := True\<rparr>)
                     else Inr s0) of
                 Inl p \<Rightarrow> Inl p
               | Inr s2 \<Rightarrow> append_pair s2 v))"

text \<open>The variable block at the head of \<^verbatim>\<open>parseJSON\<close>.\<close>

definition init :: "'n state" where
  "init = \<lparr>pairs = [], inmap = False, inarr = False, empty = False, onkey = False,
           arridx = [0x5B, 0x30, 0x5D], arrkey = [], path = replicate 10 [], pos = - 1\<rparr>"

text \<open>
  The \<^verbatim>\<open>for\<close> loop over the tokens. The result is \<open>Inl\<close> of a panic, or \<open>Inr\<close> of the two
  values Go returns: the pairs (\<^verbatim>\<open>nil\<close> is the empty list) and the error, if any.
\<close>

fun loop :: "'n state \<Rightarrow> 'n token list \<Rightarrow> 'e ending \<Rightarrow> panic + 'n Pair list \<times> 'e option" where
  "loop s [] EOF = Inr (pairs s, None)"
| "loop s [] (Err e) = Inr ([], Some e)"
| "loop s (t # ts) fin =
     (case step s t of
        Inl p \<Rightarrow> Inl p
      | Inr s' \<Rightarrow> loop s' ts fin)"

definition parseJSON :: "'n token list \<Rightarrow> 'e ending \<Rightarrow> panic + 'n Pair list \<times> 'e option" where
  "parseJSON ts fin = loop init ts fin"

section \<open>JSON documents and their token streams\<close>

text \<open>
  A JSON document as a tree, and the tokens the decoder yields for it in document order
  (commas and colons yield nothing).
\<close>

datatype 'n json = JScalar "'n scalar" | JObject "(string \<times> 'n json) list" | JArray "'n json list"

fun tokens :: "'n json \<Rightarrow> 'n token list" where
  "tokens (JScalar v) = [Val v]"
| "tokens (JObject kvs) =
     Delim LBrace # concat (map (\<lambda>kv. Val (Str (fst kv)) # tokens (snd kv)) kvs) @ [Delim RBrace]"
| "tokens (JArray vs) = Delim LSquare # concat (map tokens vs) @ [Delim RSquare]"

text \<open>
  The leaf positions of a document as the specification counts them: one per scalar, one
  per empty container below the root, none for a non-empty container itself, none for an
  empty root.
\<close>

fun leaves :: "'n json \<Rightarrow> nat" where
  "leaves (JScalar v) = 1"
| "leaves (JObject kvs) = (if kvs = [] then 1 else sum_list (map (\<lambda>kv. leaves (snd kv)) kvs))"
| "leaves (JArray vs) = (if vs = [] then 1 else sum_list (map leaves vs))"

definition leaf_positions :: "'n json \<Rightarrow> nat" where
  "leaf_positions d =
     (case d of
        JObject [] \<Rightarrow> 0
      | JArray [] \<Rightarrow> 0
      | _ \<Rightarrow> leaves d)"

text \<open>The tokens between the braces of an object whose values are all scalars.\<close>

definition field_tokens :: "(string \<times> 'n scalar) list \<Rightarrow> 'n token list" where
  "field_tokens kvs = concat (map (\<lambda>kv. [Val (Str (fst kv)), Val (snd kv)]) kvs)"

section \<open>The Encoder\<close>

text \<open>
  \<^verbatim>\<open>mapPairs.MarshalJSON\<close> fills a Go map with \<^verbatim>\<open>aux[p.Key] = p.Value\<close> in slice order
  and \<^verbatim>\<open>arrayPairs.MarshalJSON\<close> fills a slice with \<^verbatim>\<open>tokArray{p.Key, p.Value}\<close>; both
  then call \<^verbatim>\<open>json.Marshal(aux)\<close>.
\<close>

definition mapPairs_aux :: "'n Pair list \<Rightarrow> (string \<rightharpoonup> 'n scalar)" where
  "mapPairs_aux m = foldl (\<lambda>aux p. aux(Key p \<mapsto> Value p)) Map.empty m"

definition arrayPairs_aux :: "'n Pair list \<Rightarrow> (string \<times> 'n scalar) list" where
  "arrayPairs_aux a = map (\<lambda>p. (Key p, Value p)) a"

text \<open>
  The operations of \<^verbatim>\<open>encoding/json\<close> and \<^verbatim>\<open>io\<close> that the Encoder calls, as parameters:
  \<^item> \<open>encode_value v\<close>: \<^verbatim>\<open>json.NewEncoder(buf).Encode(v)\<close> on a fresh \<^verbatim>\<open>bytes.Buffer\<close>,
    giving the error or the buffer's contents;
  \<^item> \<open>decode r\<close>: the results of the successive \<^verbatim>\<open>dec.Token()\<close> calls of a decoder on a
    reader that delivers the bytes \<open>r\<close>;
  \<^item> \<open>marshal_map\<close>, \<open>marshal_array\<close>: \<^verbatim>\<open>json.Marshal\<close> on the two auxiliary values;
  \<^item> \<open>Write w b\<close>: \<^verbatim>\<open>w.Write(b)\<close> on the Encoder's writer, giving the writer afterwards
    and the error, if any.
  Values of type \<open>'v\<close> are the Go values handed to the Encoder, \<open>'w\<close> is the writer.
\<close>

record ('v, 'n, 'e, 'w) lib =
  encode_value :: "'v \<Rightarrow> 'e + string"
  decode :: "string \<Rightarrow> 'n token list \<times> 'e ending"
  marshal_map :: "(string \<rightharpoonup> 'n scalar) \<Rightarrow> 'e + string"
  marshal_array :: "(string \<times> 'n scalar) list \<Rightarrow> 'e + string"
  Write :: "'w \<Rightarrow> string \<Rightarrow> 'w \<times> 'e option"

text \<open>
  \<^verbatim>\<open>json.NewEncoder(f.w).Encode(x)\<close>, given the outcome of marshalling \<open>x\<close>: a marshalling
  error is returned with nothing written, otherwise the bytes and a newline are written.
\<close>

definition Encode_to :: "('v, 'n, 'e, 'w) lib \<Rightarrow> 'w \<Rightarrow> 'e + string \<Rightarrow> 'w \<times> 'e option" where
  "Encode_to L w m =
     (case m of
        Inl e \<Rightarrow> (w, Some e)
      | Inr b \<Rightarrow> Write L w (b @ [CHR 0x0A]))"

text \<open>\<^verbatim>\<open>parseJSON(r)\<close> on a reader: the decoder turns the bytes into the token calls.\<close>

definition parseJSON_reader ::
  "('v, 'n, 'e, 'w) lib \<Rightarrow> string \<Rightarrow> panic + 'n Pair list \<times> 'e option" where
  "parseJSON_reader L r = (case decode L r of (ts, fin) \<Rightarrow> parseJSON ts fin)"

text \<open>
  The four methods of \<^verbatim>\<open>Encoder\<close>. Each returns the writer as it is afterwards together
  with the method's error result, or panics.
\<close>

definition EncodeArray :: "('v, 'n, 'e, 'w) lib \<Rightarrow> 'w \<Rightarrow> 'v \<Rightarrow> panic + 'w \<times> 'e option" where
  "EncodeArray L w v =
     (case encode_value L v of
        Inl err \<Rightarrow> Inr (w, Some err)
      | Inr buf \<Rightarrow>
          (case parseJSON_reader L buf of
             Inl p \<Rightarrow> Inl p
           | Inr (ps, Some err) \<Rightarrow> Inr (w, Some err)
           | Inr (ps, None) \<Rightarrow> Inr (Encode_to L w (marshal_array L (arrayPairs_aux ps)))))"

definition EncodeMap :: "('v, 'n, 'e, 'w) lib \<Rightarrow> 'w \<Rightarrow> 'v \<Rightarrow> panic + 'w \<times> 'e option" where
  "EncodeMap L w v =
     (case encode_value L v of
        Inl err \<Rightarrow> Inr (w, Some err)
      | Inr buf \<Rightarrow>
          (case parseJSON_reader L buf of
             Inl p \<Rightarrow> Inl p
           | Inr (ps, Some err) \<Rightarrow> Inr (w, Some err)
           | Inr (ps, None) \<Rightarrow> Inr (Encode_to L w (marshal_map L (mapPairs_aux ps)))))"

definition ConvertArray :: "('v, 'n, 'e, 'w) lib \<Rightarrow> 'w \<Rightarrow> string \<Rightarrow> panic + 'w \<times> 'e option" where
  "ConvertArray L w r =
     (case parseJSON_reader L r of
        Inl p \<Rightarrow> Inl p
      | Inr (ps, Some err) \<Rightarrow> Inr (w, Some err)
      | Inr (ps, None) \<Rightarrow> Inr (Encode_to L w (marshal_array L (arrayPairs_aux ps))))"

definition ConvertMap :: "('v, 'n, 'e, 'w) lib \<Rightarrow> 'w \<Rightarrow> string \<Rightarrow> panic + 'w \<times> 'e option" where
  "ConvertMap L w r =
     (case parseJSON_reader L r of
        Inl p \<Rightarrow> Inl p
      | Inr (ps, Some err) \<Rightarrow> Inr (w, Some err)
      | Inr (ps, None) \<Rightarrow> Inr (Encode_to L w (marshal_map L (mapPairs_aux ps))))"

text \<open>
  A small concrete library for running the Encoder: the Go values are the booleans,
  encoded as a one-element array; the writer is the list of bytes written so far.
\<close>

definition demo_lib :: "(bool, int, string, string) lib" where
  "demo_lib =
     \<lparr>encode_value = (\<lambda>b. Inr (if b then ''[true]'' else ''[false]'')),
      decode = (\<lambda>r. if r = ''[true]'' then ([Delim LSquare, Val (Bool True), Delim RSquare], EOF)
                     else if r = ''[false]''
                          then ([Delim LSquare, Val (Bool False), Delim RSquare], EOF)
                          else ([], Err ''invalid character'')),
      marshal_map = (\<lambda>m. case m ''[0]'' of
                            Some (Bool True) \<Rightarrow> Inr ''{[0]:true}''
                          | Some (Bool False) \<Rightarrow> Inr ''{[0]:false}''
                          | _ \<Rightarrow> Inl ''unsupported''),
      marshal_array = (\<lambda>a. case a of
                            [(k, Bool True)] \<Rightarrow> Inr (''[['' @ k @ '',true]]'')
                          | [(k, Bool False)] \<Rightarrow> Inr (''[['' @ k @ '',false]]'')
                          | _ \<Rightarrow> Inl ''unsupported''),
      Write = (\<lambda>w bs. (w @ bs, None))\<rparr>"

section \<open>Properties of the loop\<close>

subsection \<open>Token errors\<close>

text \<open>
  When the decoder ends with an error, the loop hands back that error and no pairs,
  unless an earlier token made the body panic.
\<close>

lemma loop_Err_result:
  "loop s ts (Err e) = Inr r \<Longrightarrow> r = ([], Some e)"
  by (induction ts arbitrary: s) (auto split: sum.splits)

lemma loop_Err_cases:
  "loop s ts (Err e) = Inr ([], Some e) \<or> (\<exists>p. loop s ts (Err e) = Inl p)"
  by (induction ts arbitrary: s) (auto split: sum.splits)

subsection \<open>Capacity of the path stack\<close>

lemma append_pair_path:
  "append_pair s v = Inr s' \<Longrightarrow> path s' = path s \<and> pos s' = pos s"
  by (auto simp: append_pair_def split: sum.splits)

lemma store_length: "store xs i v = Inr ys \<Longrightarrow> length ys = length xs"
  by (auto simp: store_def split: if_splits)

text \<open>The depth counter stays below the length of the stack, which is never empty.\<close>

lemma init_capacity: "pos init < int (length (path init)) \<and> 0 < length (path init)"
  by (simp add: init_def)

lemma step_capacity:
  assumes "step s t = Inr s'" "pos s < int (length (path s))" "0 < length (path s)"
  shows "pos s' < int (length (path s')) \<and> 0 < length (path s')"
proof (cases t)
  case (Delim d)
  with assms show ?thesis
    by (cases d)
       (auto simp: Let_def grow_def load_def dest!: append_pair_path
             split: sum.splits if_splits)
next
  case (Val v)
  with assms show ?thesis
    by (auto simp: Let_def dest!: append_pair_path store_length
             split: sum.splits if_splits scalar.splits)
qed

text \<open>
  Hence no index is ever too large: where an indexed access or a slice expression of the
  body panics, the depth counter is negative.
\<close>

lemma step_index_panic:
  assumes "step s t = Inl IndexOutOfRange" "pos s < int (length (path s))"
  shows "pos s < 0"
proof (cases t)
  case (Delim d)
  with assms show ?thesis
    by (cases d)
       (auto simp: Let_def load_def append_pair_def slice_to_def
             split: sum.splits if_splits)
next
  case (Val v)
  with assms show ?thesis
    by (auto simp: Let_def store_def append_pair_def slice_to_def
             split: sum.splits if_splits scalar.splits)
qed

text \<open>An opening brace that fills the stack doubles it and keeps its contents.\<close>

lemma step_doubles:
  assumes "pos s + 1 = int (length (path s))"
  shows "\<exists>s'. step s (Delim LBrace) = Inr s' \<and> length (path s') = 2 * length (path s) \<and>
              take (length (path s)) (path s') = path s"
  using assms by (simp add: Let_def grow_def)

subsection \<open>Objects of scalar fields\<close>

lemma take_one_update: "xs \<noteq> [] \<Longrightarrow> take (Suc 0) (xs[0 := k]) = [k]"
  by (cases xs) simp_all

lemma loop_field:
  assumes "inmap s" "\<not> inarr s" "onkey s" "pos s = 0" "path s \<noteq> []"
  shows "loop s (Val (Str k) # Val v # rest) fin =
         loop (s\<lparr>path := (path s)[0 := k], empty := False, onkey := True,
                 pairs := pairs s @ [\<lparr>Key = k, Value = v\<rparr>]\<rparr>) rest fin"
  using assms
  by (simp add: store_def append_pair_def slice_to_def take_one_update Suc_le_eq)

lemma loop_fields:
  "inmap s \<Longrightarrow> \<not> inarr s \<Longrightarrow> onkey s \<Longrightarrow> pos s = 0 \<Longrightarrow> path s \<noteq> [] \<Longrightarrow>
   \<exists>s'. loop s (field_tokens kvs @ rest) fin = loop s' rest fin \<and>
        pairs s' = pairs s @ map (\<lambda>kv. \<lparr>Key = fst kv, Value = snd kv\<rparr>) kvs \<and>
        pos s' = 0"
proof (induction kvs arbitrary: s)
  case Nil
  then show ?case by (auto simp: field_tokens_def)
next
  case (Cons kv kvs)
  let ?s1 = "s\<lparr>path := (path s)[0 := fst kv], empty := False, onkey := True,
                pairs := pairs s @ [\<lparr>Key = fst kv, Value = snd kv\<rparr>]\<rparr>"
  have head: "loop s (field_tokens (kv # kvs) @ rest) fin = loop ?s1 (field_tokens kvs @ rest) fin"
    using Cons.prems loop_field [of s "fst kv" "snd kv" "field_tokens kvs @ rest" fin]
    by (simp add: field_tokens_def)
  have "inmap ?s1" "\<not> inarr ?s1" "onkey ?s1" "pos ?s1 = 0" "path ?s1 \<noteq> []"
    using Cons.prems by simp_all
  from Cons.IH [OF this] obtain s' where
    "loop ?s1 (field_tokens kvs @ rest) fin = loop s' rest fin"
    "pairs s' = pairs ?s1 @ map (\<lambda>kv. \<lparr>Key = fst kv, Value = snd kv\<rparr>) kvs"
    "pos s' = 0"
    by blast
  with head show ?case by auto
qed

lemma tokens_flat:
  "tokens (JObject (map (\<lambda>kv. (fst kv, JScalar (snd kv))) kvs)) =
   Delim LBrace # field_tokens kvs @ [Delim RBrace]"
  by (simp add: field_tokens_def comp_def)

section \<open>The claims\<close>

text \<open>
  C6. For the documents \<^verbatim>\<open>{}\<close> and \<^verbatim>\<open>[]\<close>, an empty object or an empty array at the
  root, \<^verbatim>\<open>parseJSON\<close> returns no pairs and no error: a root container emits no pair of
  its own.
\<close>

theorem C6_empty_root_no_pairs:
  "parseJSON (tokens (JObject [])) EOF = Inr ([], None) \<and>
   parseJSON (tokens (JArray [])) EOF = Inr ([], None)"
  by (simp add: parseJSON_def init_def)

text \<open>
  C7. For every document that is a bare scalar at the root (a string, a number, a boolean
  or null), \<^verbatim>\<open>parseJSON\<close> returns exactly one pair, whose key is the empty string and
  whose value is that scalar.
\<close>

theorem C7_root_scalar_empty_key:
  "parseJSON (tokens (JScalar v)) EOF = Inr ([\<lparr>Key = [], Value = v\<rparr>], None)"
  by (simp add: parseJSON_def init_def append_pair_def slice_to_def)

text \<open>
  C9. For every object of depth one whose values are all scalars (the shape of the flat-map
  output), \<^verbatim>\<open>parseJSON\<close> returns exactly one pair per field, in order, with the field's
  name unchanged as key and the field's scalar as value.
\<close>

theorem C9_flat_object_pairs:
  fixes kvs :: "(string \<times> 'n scalar) list"
  shows "parseJSON (tokens (JObject (map (\<lambda>kv. (fst kv, JScalar (snd kv))) kvs)))
           (EOF :: 'e ending) =
         Inr (map (\<lambda>kv. \<lparr>Key = fst kv, Value = snd kv\<rparr>) kvs, None)"
proof -
  let ?s0 = "init\<lparr>empty := True, inmap := True, onkey := True, pos := 0\<rparr> :: 'n state"
  let ?fin = "EOF :: 'e ending"
  have first: "step init (Delim LBrace) = Inr ?s0"
    by (simp add: init_def)
  have "inmap ?s0" "\<not> inarr ?s0" "onkey ?s0" "pos ?s0 = 0" "path ?s0 \<noteq> []"
    by (simp_all add: init_def)
  from loop_fields [OF this, of kvs "[Delim RBrace]" ?fin] obtain s' where
    run: "loop ?s0 (field_tokens kvs @ [Delim RBrace]) ?fin = loop s' [Delim RBrace] ?fin"
    and ps: "pairs s' = pairs ?s0 @ map (\<lambda>kv. \<lparr>Key = fst kv, Value = snd kv\<rparr>) kvs"
    and p0: "pos s' = 0"
    by blast
  have last: "loop s' [Delim RBrace] ?fin = Inr (pairs s', None)"
    using p0 by simp
  have "parseJSON (Delim LBrace # field_tokens kvs @ [Delim RBrace]) ?fin
        = loop ?s0 (field_tokens kvs @ [Delim RBrace]) ?fin"
    unfolding parseJSON_def using first by simp
  also have "\<dots> = Inr (pairs s', None)"
    by (simp only: run last)
  also have "pairs s' = map (\<lambda>kv. \<lparr>Key = fst kv, Value = snd kv\<rparr>) kvs"
    using ps by (simp add: init_def)
  finally show ?thesis
    by (simp only: tokens_flat)
qed

text \<open>
  C10. For every Go value whose encoding with the standard encoder succeeds,
  \<^verbatim>\<open>Encoder.EncodeMap\<close> on the value does exactly what \<^verbatim>\<open>Encoder.ConvertMap\<close> does on
  a reader holding that encoding (the same bytes written, the same error returned), and
  \<^verbatim>\<open>Encoder.EncodeArray\<close> agrees with \<^verbatim>\<open>Encoder.ConvertArray\<close> in the same way.
\<close>

theorem C10_Encode_agrees_with_Convert:
  "encode_value L v = Inr bs \<Longrightarrow>
   EncodeMap L w v = ConvertMap L w bs \<and> EncodeArray L w v = ConvertArray L w bs"
  by (simp add: EncodeMap_def ConvertMap_def EncodeArray_def ConvertArray_def)

theorem C10_Encode_agrees_with_Convert_witness:
  "encode_value demo_lib True = Inr ''[true]'' \<and>
   EncodeMap demo_lib [] True = ConvertMap demo_lib [] ''[true]'' \<and>
   EncodeArray demo_lib [] True = ConvertArray demo_lib [] ''[true]'' \<and>
   ConvertMap demo_lib [] ''[true]'' = Inr (''{[0]:true}'' @ [CHR 0x0A], None) \<and>
   ConvertArray demo_lib [] ''[true]'' = Inr (''[[[0],true]]'' @ [CHR 0x0A], None)"
proof -
  have h: "encode_value demo_lib True = Inr ''[true]''"
    by (simp add: demo_lib_def)
  have m: "ConvertMap demo_lib [] ''[true]'' = Inr (''{[0]:true}'' @ [CHR 0x0A], None)"
    by code_simp
  have a: "ConvertArray demo_lib [] ''[true]'' = Inr (''[[[0],true]]'' @ [CHR 0x0A], None)"
    by code_simp
  show ?thesis
    using h C10_Encode_agrees_with_Convert [OF h, of "[]"] m a by simp
qed

text \<open>
  C1. The claim: an array directly under an object key gives each element the key
  \<^verbatim>\<open>parent.[i]\<close>, so \<^verbatim>\<open>{"foo": [1, 2]}\<close> gives \<^verbatim>\<open>("foo.[0]", 1)\<close> and
  \<^verbatim>\<open>("foo.[1]", 2)\<close>. The code, run on that document: the opening bracket sees
  \<^verbatim>\<open>pos = 0\<close>, the test \<^verbatim>\<open>pos > 0\<close> fails, the parent key is dropped and the two keys
  are \<^verbatim>\<open>[0]\<close> and \<^verbatim>\<open>[1]\<close>.
\<close>

theorem C1_array_under_key_drops_parent:
  "parseJSON (tokens (JObject [(''foo'', JArray [JScalar (Num (1::int)), JScalar (Num 2)])]))
     (EOF :: unit ending)
   = Inr ([\<lparr>Key = ''[0]'', Value = Num 1\<rparr>, \<lparr>Key = ''[1]'', Value = Num 2\<rparr>], None)"
  by code_simp

text \<open>
  C2. The claim: on every well-formed document the number of pairs is the number of leaf
  positions. The code, run on \<^verbatim>\<open>{"a": {"b": 1}, "c": 2, "d": 3}\<close> with three leaf
  positions: the closing brace of the inner object clears \<^verbatim>\<open>inmap\<close> for the outer one
  too, the key \<^verbatim>\<open>"d"\<close> is then taken for a value, and four pairs come back. On
  \<^verbatim>\<open>{"a": [1], "b": 2}\<close> the key \<^verbatim>\<open>"b"\<close> is taken for a value and the number 2 for
  a key, which panics.
\<close>

theorem C2_pair_count_not_leaf_positions:
  "parseJSON (tokens (JObject [(''a'', JObject [(''b'', JScalar (Num (1::int)))]),
                               (''c'', JScalar (Num 2)), (''d'', JScalar (Num 3))]))
     (EOF :: unit ending)
   = Inr ([\<lparr>Key = ''a.b'', Value = Num 1\<rparr>, \<lparr>Key = ''c'', Value = Num 2\<rparr>,
           \<lparr>Key = ''c'', Value = Str ''d''\<rparr>, \<lparr>Key = ''c'', Value = Num 3\<rparr>], None)
   \<and> leaf_positions (JObject [(''a'', JObject [(''b'', JScalar (Num (1::int)))]),
                               (''c'', JScalar (Num 2)), (''d'', JScalar (Num 3))]) = 3
   \<and> parseJSON (tokens (JObject [(''a'', JArray [JScalar (Num (1::int))]),
                                 (''b'', JScalar (Num 2))]))
     (EOF :: unit ending)
   = Inl TypeAssertion"
  by code_simp

text \<open>
  C3. The claim: array elements are numbered \<^verbatim>\<open>[0]\<close>, \<^verbatim>\<open>[1]\<close>, ... in decimal, one step
  per element whatever its type, also beyond \<^verbatim>\<open>[9]\<close>. The code keeps the index as the
  single byte \<^verbatim>\<open>arridx[1]\<close> and increments that byte: the eleventh scalar gets the key
  \<^verbatim>\<open>[:]\<close>. An element that is an array resets the byte instead of advancing it: both
  scalars of \<^verbatim>\<open>[[1], [2]]\<close> get the key \<^verbatim>\<open>[0]\<close>.
\<close>

theorem C3_array_index_is_one_byte:
  "parseJSON (tokens (JArray (map (\<lambda>k. JScalar (Num k)) [0, 1, 2, 3, 4, 5, 6, 7, 8, 9, 10 :: int])))
     (EOF :: unit ending)
   = Inr ([\<lparr>Key = ''[0]'', Value = Num 0\<rparr>, \<lparr>Key = ''[1]'', Value = Num 1\<rparr>,
           \<lparr>Key = ''[2]'', Value = Num 2\<rparr>, \<lparr>Key = ''[3]'', Value = Num 3\<rparr>,
           \<lparr>Key = ''[4]'', Value = Num 4\<rparr>, \<lparr>Key = ''[5]'', Value = Num 5\<rparr>,
           \<lparr>Key = ''[6]'', Value = Num 6\<rparr>, \<lparr>Key = ''[7]'', Value = Num 7\<rparr>,
           \<lparr>Key = ''[8]'', Value = Num 8\<rparr>, \<lparr>Key = ''[9]'', Value = Num 9\<rparr>,
           \<lparr>Key = ''[:]'', Value = Num 10\<rparr>], None)
   \<and> parseJSON (tokens (JArray [JArray [JScalar (Num (1::int))], JArray [JScalar (Num 2)]]))
     (EOF :: unit ending)
   = Inr ([\<lparr>Key = ''[0]'', Value = Num 1\<rparr>, \<lparr>Key = ''[0]'', Value = Num 2\<rparr>], None)"
  by code_simp

text \<open>
  C4. The claim: an empty object or array below the root gives exactly one pair, its own
  path without a trailing separator and the value null, so \<^verbatim>\<open>{"foo": {}}\<close> gives
  \<^verbatim>\<open>("foo", null)\<close>, also for an empty container inside an array. The code, run on
  \<^verbatim>\<open>{"foo": {}}\<close>: the inner brace has raised \<^verbatim>\<open>pos\<close> to 1, the key is joined from
  \<^verbatim>\<open>path[:2]\<close> and is \<^verbatim>\<open>foo.\<close>, with the separator at its end. On \<^verbatim>\<open>[{}]\<close> and
  \<^verbatim>\<open>[[]]\<close> no pair is returned at all.
\<close>

theorem C4_empty_nested_container:
  "parseJSON (tokens (JObject [(''foo'', JObject [])])) (EOF :: unit ending)
     = Inr ([\<lparr>Key = ''foo.'', Value = (Null :: int scalar)\<rparr>], None)
   \<and> parseJSON (tokens (JArray [JObject []])) (EOF :: unit ending)
     = Inr ([] :: int Pair list, None)
   \<and> parseJSON (tokens (JArray [JArray []])) (EOF :: unit ending)
     = Inr ([] :: int Pair list, None)"
  by code_simp

text \<open>
  C5. The claim: whenever the decoder fails, \<^verbatim>\<open>parseJSON\<close> returns that error and no
  pairs. The code, run on the tokens of \<^verbatim>\<open>{"a":[1],"b":2]\<close>, where the decoder fails at
  the mismatched bracket: the number 2 is taken for a map key and the type assertion
  panics before the failing call is made, so no error is returned.
\<close>

theorem C5_panic_before_token_error:
  "parseJSON [Delim LBrace, Val (Str ''a''), Delim LSquare, Val (Num (1::int)), Delim RSquare,
              Val (Str ''b''), Val (Num 2)] (Err ''invalid character'')
   = Inl TypeAssertion"
  by code_simp

text \<open>
  C8. The claim: on every well-formed document no write \<^verbatim>\<open>path[pos]\<close> is out of bounds.
  The code, run on \<^verbatim>\<open>[{}, "x"]\<close>: the closing brace sets \<^verbatim>\<open>onkey\<close> and lowers
  \<^verbatim>\<open>pos\<close> to -1, the string is then stored as a key at \<^verbatim>\<open>path[-1]\<close>, which panics.
\<close>

theorem C8_negative_path_index:
  "parseJSON (tokens (JArray [JObject [], JScalar (Str ''x'' :: int scalar)])) (EOF :: unit ending)
   = Inl IndexOutOfRange"
  by code_simp

end
